theory Spec2Isabelle
  imports Main "HOL-Library.Word"
begin

unbundle bit_operations_syntax

section \<open>Motion execution state store (package \<open>state\<close>, services/motion/builtin/state)\<close>

subsection \<open>Identifiers, time and outcomes\<close>

text \<open>
  \<open>motion.ExecutionID\<close> and \<open>motion.PlanID\<close> are \<open>uuid.UUID\<close>, sixteen bytes;
  \<open>uuid.Nil\<close> is the all-zero value. \<open>uuid.New()\<close> and \<open>time.Now()\<close> are calls into the
  environment: every function that makes one takes the value it returned as an argument.
  \<open>resource.Name\<close> is declared outside the package and only compared and used as a map key.
\<close>

type_synonym uuid = "128 word"
type_synonym ExecutionID = uuid
type_synonym PlanID = uuid
type_synonym Name = string
type_synonym Time = nat

definition uuid_Nil :: uuid where
  "uuid_Nil = 0"

definition hex_char :: "nat \<Rightarrow> char" where
  "hex_char n = ''0123456789abcdef'' ! (n mod 16)"

definition uuid_String :: "uuid \<Rightarrow> string" where
  "uuid_String u =
     (let h = map (\<lambda>i. hex_char (unat (drop_bit (4 * (31 - i)) u AND 15))) [0..<32]
      in take 8 h @ ''-'' @ take 4 (drop 8 h) @ ''-'' @ take 4 (drop 12 h) @ ''-''
         @ take 4 (drop 16 h) @ ''-'' @ drop 20 h)"

function show_nat :: "nat \<Rightarrow> string" where
  "show_nat n = (if n < 10 then [hex_char n] else show_nat (n div 10) @ [hex_char (n mod 10)])"
  by pat_completeness auto
termination
  by (relation "measure id") auto

text \<open>
  A Go function either returns or panics (an index out of range on an empty slice is the
  only panic of this package).
\<close>

datatype 'a outcome = Return 'a | Panic

subsection \<open>Errors\<close>

text \<open>
  The three package-level errors, the errors the package builds with \<open>errors.New\<close> and
  \<open>fmt.Errorf\<close> (kept structured, with \<open>Error\<close> rendering the message), and
  \<open>ErrExternal msg\<close> for an error value handed in by a planner or executor.
\<close>

datatype error =
    ErrUnknownResource
  | ErrNotFound
  | ErrExecutionStopped
  | ErrStateIsNil
  | ErrAlreadyActive ExecutionID
  | ErrStateCorrupted
  | ErrGeoPosesLength nat nat
  | ErrPlanStepComponents nat
  | ErrExternal string

fun Error :: "error \<Rightarrow> string" where
  "Error ErrUnknownResource = ''unknown resource''"
| "Error ErrNotFound = ''not found''"
| "Error ErrExecutionStopped = ''execution stopped''"
| "Error ErrStateIsNil = ''state is nil''"
| "Error (ErrAlreadyActive i) = ''there is already an active executionID: '' @ uuid_String i"
| "Error ErrStateCorrupted = ''state is corrupted''"
| "Error (ErrGeoPosesLength g p) =
     ''PlanResp.GeoPoses (len: '' @ show_nat g @ '') & PlanResp.PosesByComponent (len: ''
       @ show_nat p @ '') must have the same length''"
| "Error (ErrPlanStepComponents l) =
     ''only single component or fewer plan steps supported, received plan step with ''
       @ show_nat l @ '' componenents''"
| "Error (ErrExternal m) = m"

subsection \<open>Plans and statuses (package \<open>motion\<close>)\<close>

datatype PlanState =
    PlanStateUnspecified
  | PlanStateInProgress
  | PlanStateStopped
  | PlanStateSucceeded
  | PlanStateFailed

text \<open>
  Modelled from the spec: \<open>motion.TerminalStateSet\<close> is declared outside the sources at
  hand; the glossary gives "Terminal states are Stopped, Succeeded, Failed", the same three
  states \<open>updateStateStatusUpdate\<close> lists under its comment "terminal states".
\<close>

fun TerminalStateSet :: "PlanState \<Rightarrow> bool" where
  "TerminalStateSet PlanStateStopped = True"
| "TerminalStateSet PlanStateSucceeded = True"
| "TerminalStateSet PlanStateFailed = True"
| "TerminalStateSet _ = False"

record PlanStatus =
  State :: PlanState
  Timestamp :: Time
  Reason :: "string option"

text \<open>
  A pose is floating-point data the store never inspects. \<open>SuppliedPose\<close> stands for a
  pose the planner returned, \<open>PoseContainingGeoPose g\<close> for the pose \<open>toGeoPosePlanSteps\<close>
  builds from the geo pose \<open>g\<close> (latitude and longitude as x and y, the heading as theta).
\<close>

type_synonym GeoPose = nat

datatype Pose = SuppliedPose nat | PoseContainingGeoPose GeoPose

type_synonym PlanStep = "(Name \<times> Pose) list"

record Plan =
  ID :: PlanID
  ExecutionID :: ExecutionID
  ComponentName :: Name
  Steps :: "PlanStep list"

record PlanWithStatus =
  Plan :: Plan
  StatusHistory :: "PlanStatus list"

record PlanStatusWithID =
  psid_ExecutionID :: ExecutionID
  psid_ComponentName :: Name
  psid_PlanID :: PlanID
  psid_Status :: PlanStatus

record PlanHistoryReq =
  phr_ComponentName :: Name
  phr_ExecutionID :: ExecutionID
  phr_LastPlanOnly :: bool

record ListPlanStatusesReq =
  OnlyActivePlans :: bool

definition zero_Plan :: Plan where
  "zero_Plan = \<lparr>ID = uuid_Nil, ExecutionID = uuid_Nil, ComponentName = [], Steps = []\<rparr>"

definition zero_PlanWithStatus :: PlanWithStatus where
  "zero_PlanWithStatus = \<lparr>Plan = zero_Plan, StatusHistory = []\<rparr>"

subsection \<open>Planner, executor and the execution\<close>

type_synonym Waypoints = "nat list list"
type_synonym motionplan_Plan = "nat list"

record PlanResp =
  pr_Waypoints :: Waypoints
  pr_Motionplan :: motionplan_Plan
  pr_GeoPoses :: "GeoPose list"
  pr_PosesByComponent :: "PlanStep list"

record ExecuteResp =
  Replan :: bool
  ReplanReason :: string

text \<open>
  A \<open>PlannerExecutor\<close> is asked to plan once, when it is built, and to execute at most
  once, so each method is the value that call returns. \<open>pe_Execute wp = None\<close> is an
  \<open>Execute\<close> that has not returned (it blocks on outside input).
\<close>

record PlannerExecutor =
  pe_Plan :: "error + PlanResp"
  pe_Execute :: "Waypoints \<Rightarrow> (ExecuteResp \<times> error option) option"

type_synonym 'r PlanExecutorConstructor =
  "'r \<Rightarrow> motionplan_Plan option \<Rightarrow> int \<Rightarrow> error + PlannerExecutor"

text \<open>
  \<open>execution[R]\<close>: the wait group, the two contexts and their cancel functions live with
  the goroutine (below); the back pointer to the state is the state argument of every call.
\<close>

record 'r execution =
  e_id :: ExecutionID
  e_componentName :: Name
  e_req :: 'r
  e_planExecutorConstructor :: "'r PlanExecutorConstructor"

record planWithExecutor =
  pwe_plan :: Plan
  pwe_planExecutor :: PlannerExecutor
  pwe_waypoints :: Waypoints
  pwe_motionplan :: motionplan_Plan

text \<open>
  \<open>stateExecution\<close>: \<open>se_goroutine\<close> stands for the two pointers \<open>waitGroup\<close> and
  \<open>cancelCauseFunc\<close>, which are allocated together in \<open>StartExecution\<close> and reach the
  goroutine of that execution; \<open>None\<close> is the nil pointer of the zero value.
\<close>

record stateExecution =
  se_id :: ExecutionID
  se_componentName :: Name
  se_goroutine :: "nat option"
  se_history :: "PlanWithStatus list"

definition zero_stateExecution :: stateExecution where
  "zero_stateExecution =
     \<lparr>se_id = uuid_Nil, se_componentName = [], se_goroutine = None, se_history = []\<rparr>"

record componentState =
  executionIDHistory :: "ExecutionID list"
  executionsByID :: "ExecutionID \<rightharpoonup> stateExecution"

definition zero_componentState :: componentState where
  "zero_componentState = \<lparr>executionIDHistory = [], executionsByID = Map.empty\<rparr>"

record newPlanMsg =
  npm_plan :: Plan
  npm_planStatus :: PlanStatus

record stateUpdateMsg =
  sum_componentName :: Name
  sum_executionID :: ExecutionID
  sum_planID :: PlanID
  sum_planStatus :: PlanStatus

text \<open>The lines the store writes to its logger at error level.\<close>

datatype logline =
    LogExecutionIDExists ExecutionID
  | LogNewPlanNotInProgress
  | LogNewPlanInactiveExecution ExecutionID PlanID Name ExecutionID
  | LogUnexpectedPlanState PlanState
  | LogComponentDoesntExist
  | LogNotLastPlan PlanID PlanID
  | LogGoroutinePanic

text \<open>
  The goroutine \<open>start\<close> launches, with its local variables. The loop body takes the
  state lock twice when it replans (\<open>notifyStatePlanFailed\<close>, then
  \<open>notifyStateNewPlan\<close>), so the goroutine can be observed between the two:
  \<open>AtNotifyNewPlan newPWE\<close>.
\<close>

datatype pc = AtSelect | AtNotifyNewPlan planWithExecutor | Returned

record 'r goroutine =
  g_e :: "'r execution"
  g_lastPWE :: planWithExecutor
  g_replanCount :: int
  g_pc :: pc
  g_cancelCtx_done :: bool
  g_executorCancelCtx_done :: bool

text \<open>
  \<open>State\<close>: the map the mutex protects, the logger's output, whether the state's own
  context has been cancelled, and the goroutines its wait group counts (a
  \<open>stateExecution\<close> points at one by its index).
\<close>

record 'r State =
  componentStateByComponent :: "Name \<rightharpoonup> componentState"
  logger :: "logline list"
  cancelCtx_done :: bool
  goroutines :: "'r goroutine list"

definition NewState :: "'r State" where
  "NewState = \<lparr>componentStateByComponent = Map.empty, logger = [], cancelCtx_done = False,
               goroutines = []\<rparr>"

subsection \<open>The state's map: reads\<close>

definition lastExecutionID :: "componentState \<Rightarrow> ExecutionID outcome" where
  "lastExecutionID cs = (case executionIDHistory cs of [] \<Rightarrow> Panic | i # _ \<Rightarrow> Return i)"

text \<open>Reading a Go map at a missing key gives the zero value.\<close>

definition executionsByID_at :: "componentState \<Rightarrow> ExecutionID \<Rightarrow> stateExecution" where
  "executionsByID_at cs i = (case executionsByID cs i of None \<Rightarrow> zero_stateExecution | Some e \<Rightarrow> e)"

definition componentStateByComponent_at :: "'r State \<Rightarrow> Name \<Rightarrow> componentState" where
  "componentStateByComponent_at s name =
     (case componentStateByComponent s name of None \<Rightarrow> zero_componentState | Some cs \<Rightarrow> cs)"

definition lastExecution :: "componentState \<Rightarrow> stateExecution outcome" where
  "lastExecution cs =
     (case lastExecutionID cs of Panic \<Rightarrow> Panic | Return i \<Rightarrow> Return (executionsByID_at cs i))"

definition activeExecution :: "'r State \<Rightarrow> Name \<Rightarrow> (error + stateExecution) outcome" where
  "activeExecution s name =
     (case componentStateByComponent s name of
        Some cs \<Rightarrow>
          (case lastExecution cs of
             Panic \<Rightarrow> Panic
           | Return es \<Rightarrow>
               (case se_history es of
                  [] \<Rightarrow> Panic
                | pws # _ \<Rightarrow>
                    (case StatusHistory pws of
                       [] \<Rightarrow> Panic
                     | st # _ \<Rightarrow>
                         if TerminalStateSet (State st) then Return (Inl ErrNotFound)
                         else Return (Inr es))))
      | None \<Rightarrow> Return (Inl ErrUnknownResource))"

definition ValidateNoActiveExecutionID :: "'r State \<Rightarrow> Name \<Rightarrow> error option outcome" where
  "ValidateNoActiveExecutionID s name =
     (case activeExecution s name of
        Panic \<Rightarrow> Panic
      | Return (Inr es) \<Rightarrow> Return (Some (ErrAlreadyActive (se_id es)))
      | Return (Inl _) \<Rightarrow> Return None)"

text \<open>\<open>copy(make([]T, n), src)\<close>: the first \<open>n\<close> elements, zero values where \<open>src\<close> is shorter.\<close>

definition copy_history :: "nat \<Rightarrow> PlanWithStatus list \<Rightarrow> PlanWithStatus list" where
  "copy_history n src = take n src @ replicate (n - length src) zero_PlanWithStatus"

definition PlanHistory :: "'r State \<Rightarrow> PlanHistoryReq \<Rightarrow> (error + PlanWithStatus list) outcome" where
  "PlanHistory s req =
     (case componentStateByComponent s (phr_ComponentName req) of
        None \<Rightarrow> Return (Inl ErrUnknownResource)
      | Some cs \<Rightarrow>
          (let executionID = phr_ExecutionID req in
           if phr_LastPlanOnly req then
             (case lastExecution cs of
                Panic \<Rightarrow> Panic
              | Return ex \<Rightarrow>
                  if executionID = uuid_Nil \<or> executionID = se_id ex
                  then Return (Inr (copy_history 1 (se_history ex)))
                  else (case executionsByID cs executionID of
                          Some ex' \<Rightarrow> Return (Inr (copy_history 1 (se_history ex')))
                        | None \<Rightarrow> Return (Inl ErrNotFound)))
           else if executionID \<noteq> uuid_Nil then
             (case executionsByID cs executionID of
                Some ex \<Rightarrow> Return (Inr (copy_history (length (se_history ex)) (se_history ex)))
              | None \<Rightarrow> Return (Inl ErrNotFound))
           else
             (case lastExecution cs of
                Panic \<Rightarrow> Panic
              | Return ex \<Rightarrow> Return (Inr (copy_history (length (se_history ex)) (se_history ex))))))"

text \<open>
  \<open>ListPlanStatuses\<close> ranges over the Go map \<open>componentStateByComponent\<close>, and the order
  of a range over a map is not specified by the language: \<open>order\<close> is the order the
  runtime picked for this call, a listing of the map's keys.
\<close>

fun activeStatuses :: "'r State \<Rightarrow> Name list \<Rightarrow> PlanStatusWithID list outcome" where
  "activeStatuses s [] = Return []"
| "activeStatuses s (name # names) =
     (case activeExecution s name of
        Panic \<Rightarrow> Panic
      | Return (Inl err) \<Rightarrow> activeStatuses s names
      | Return (Inr e) \<Rightarrow>
          (case se_history e of
             [] \<Rightarrow> Panic
           | pws # _ \<Rightarrow>
               (case StatusHistory pws of
                  [] \<Rightarrow> Panic
                | st # _ \<Rightarrow>
                    (case activeStatuses s names of
                       Panic \<Rightarrow> Panic
                     | Return statuses \<Rightarrow>
                         Return (\<lparr>psid_ExecutionID = se_id e, psid_ComponentName = se_componentName e,
                                  psid_PlanID = ID (Plan pws), psid_Status = st\<rparr> # statuses)))))"

fun planStatuses :: "stateExecution \<Rightarrow> PlanWithStatus list \<Rightarrow> PlanStatusWithID list outcome" where
  "planStatuses e [] = Return []"
| "planStatuses e (pws # rest) =
     (case StatusHistory pws of
        [] \<Rightarrow> Panic
      | st # _ \<Rightarrow>
          (case planStatuses e rest of
             Panic \<Rightarrow> Panic
           | Return statuses \<Rightarrow>
               Return (\<lparr>psid_ExecutionID = se_id e, psid_ComponentName = se_componentName e,
                        psid_PlanID = ID (Plan pws), psid_Status = st\<rparr> # statuses)))"

fun executionStatuses ::
  "componentState \<Rightarrow> ExecutionID list \<Rightarrow> (error + PlanStatusWithID list) outcome" where
  "executionStatuses cs [] = Return (Inr [])"
| "executionStatuses cs (executionID # rest) =
     (case executionsByID cs executionID of
        None \<Rightarrow> Return (Inl ErrStateCorrupted)
      | Some e \<Rightarrow>
          (case planStatuses e (se_history e) of
             Panic \<Rightarrow> Panic
           | Return statuses \<Rightarrow>
               (case executionStatuses cs rest of
                  Panic \<Rightarrow> Panic
                | Return (Inl err) \<Rightarrow> Return (Inl err)
                | Return (Inr statuses') \<Rightarrow> Return (Inr (statuses @ statuses')))))"

fun componentStatuses ::
  "'r State \<Rightarrow> Name list \<Rightarrow> (error + PlanStatusWithID list) outcome" where
  "componentStatuses s [] = Return (Inr [])"
| "componentStatuses s (name # names) =
     (case executionStatuses (componentStateByComponent_at s name)
             (executionIDHistory (componentStateByComponent_at s name)) of
        Panic \<Rightarrow> Panic
      | Return (Inl err) \<Rightarrow> Return (Inl err)
      | Return (Inr statuses) \<Rightarrow>
          (case componentStatuses s names of
             Panic \<Rightarrow> Panic
           | Return (Inl err) \<Rightarrow> Return (Inl err)
           | Return (Inr statuses') \<Rightarrow> Return (Inr (statuses @ statuses'))))"

definition ListPlanStatuses ::
  "'r State \<Rightarrow> ListPlanStatusesReq \<Rightarrow> Name list \<Rightarrow> (error + PlanStatusWithID list) outcome" where
  "ListPlanStatuses s req order =
     (if OnlyActivePlans req then
        (case activeStatuses s order of Panic \<Rightarrow> Panic | Return statuses \<Rightarrow> Return (Inr statuses))
      else componentStatuses s order)"

subsection \<open>The state's map: updates\<close>

definition log_error :: "'r State \<Rightarrow> logline \<Rightarrow> 'r State" where
  "log_error s l = s\<lparr>logger := logger s @ [l]\<rparr>"

definition updateStateNewExecution :: "'r State \<Rightarrow> stateExecution \<Rightarrow> 'r State" where
  "updateStateNewExecution s newE =
     (case componentStateByComponent s (se_componentName newE) of
        Some cs \<Rightarrow>
          (case executionsByID cs (se_id newE) of
             Some _ \<Rightarrow> log_error s (LogExecutionIDExists (se_id newE))
           | None \<Rightarrow>
               s\<lparr>componentStateByComponent := (componentStateByComponent s)
                    (se_componentName newE \<mapsto>
                       cs\<lparr>executionIDHistory := se_id newE # executionIDHistory cs,
                          executionsByID := (executionsByID cs)(se_id newE \<mapsto> newE)\<rparr>)\<rparr>)
      | None \<Rightarrow>
          s\<lparr>componentStateByComponent := (componentStateByComponent s)
               (se_componentName newE \<mapsto>
                  \<lparr>executionIDHistory = [se_id newE],
                   executionsByID = [se_id newE \<mapsto> newE]\<rparr>)\<rparr>)"

definition updateStateNewPlan :: "'r State \<Rightarrow> newPlanMsg \<Rightarrow> 'r State outcome" where
  "updateStateNewPlan s newPlan =
     (if State (npm_planStatus newPlan) \<noteq> PlanStateInProgress
      then Return (log_error s LogNewPlanNotInProgress)
      else
        (let name = ComponentName (npm_plan newPlan); cs = componentStateByComponent_at s name in
         case lastExecutionID cs of
           Panic \<Rightarrow> Panic
         | Return activeExecutionID \<Rightarrow>
             if ExecutionID (npm_plan newPlan) \<noteq> activeExecutionID
             then Return (log_error s
                    (LogNewPlanInactiveExecution activeExecutionID (ID (npm_plan newPlan)) name
                       (ExecutionID (npm_plan newPlan))))
             else
               (let execution = executionsByID_at cs (ExecutionID (npm_plan newPlan));
                    pws = \<lparr>Plan = npm_plan newPlan, StatusHistory = [npm_planStatus newPlan]\<rparr>;
                    execution' = execution\<lparr>se_history := pws # se_history execution\<rparr>
                in Return (s\<lparr>componentStateByComponent := (componentStateByComponent s)
                      (name \<mapsto> cs\<lparr>executionsByID :=
                         (executionsByID cs)(ExecutionID (npm_plan newPlan) \<mapsto> execution')\<rparr>)\<rparr>))))"

definition updateStateStatusUpdate :: "'r State \<Rightarrow> stateUpdateMsg \<Rightarrow> 'r State outcome" where
  "updateStateStatusUpdate s update =
     (if State (sum_planStatus update) \<noteq> PlanStateSucceeded
         \<and> State (sum_planStatus update) \<noteq> PlanStateFailed
         \<and> State (sum_planStatus update) \<noteq> PlanStateStopped
      then Return (log_error s (LogUnexpectedPlanState (State (sum_planStatus update))))
      else
        (case componentStateByComponent s (sum_componentName update) of
           None \<Rightarrow> Return (log_error s LogComponentDoesntExist)
         | Some componentExecutions \<Rightarrow>
             (let execution = executionsByID_at componentExecutions (sum_executionID update) in
              case se_history execution of
                [] \<Rightarrow> Panic
              | lastPlanWithStatus # older \<Rightarrow>
                  if ID (Plan lastPlanWithStatus) \<noteq> sum_planID update
                  then Return (log_error s
                         (LogNotLastPlan (sum_planID update) (ID (Plan lastPlanWithStatus))))
                  else
                    (let lastPlanWithStatus' = lastPlanWithStatus
                           \<lparr>StatusHistory := sum_planStatus update # StatusHistory lastPlanWithStatus\<rparr>;
                         execution' = execution\<lparr>se_history := lastPlanWithStatus' # older\<rparr>
                     in Return (s\<lparr>componentStateByComponent := (componentStateByComponent s)
                           (sum_componentName update \<mapsto>
                              componentExecutions\<lparr>executionsByID :=
                                (executionsByID componentExecutions)
                                  (sum_executionID update \<mapsto> execution')\<rparr>)\<rparr>)))))"

subsection \<open>Planning\<close>

fun geoPoseSteps :: "(PlanStep \<times> GeoPose) list \<Rightarrow> error + PlanStep list" where
  "geoPoseSteps [] = Inr []"
| "geoPoseSteps ((ps, geoPose) # rest) =
     (case ps of
        [] \<Rightarrow> geoPoseSteps rest
      | [(resourceName, _)] \<Rightarrow>
          (case geoPoseSteps rest of
             Inl err \<Rightarrow> Inl err
           | Inr steps \<Rightarrow> Inr ([(resourceName, PoseContainingGeoPose geoPose)] # steps))
      | _ \<Rightarrow> Inl (ErrPlanStepComponents (length ps)))"

definition toGeoPosePlanSteps :: "PlanResp \<Rightarrow> error + PlanStep list" where
  "toGeoPosePlanSteps resp =
     (if length (pr_GeoPoses resp) \<noteq> length (pr_PosesByComponent resp)
      then Inl (ErrGeoPosesLength (length (pr_GeoPoses resp)) (length (pr_PosesByComponent resp)))
      else geoPoseSteps (zip (pr_PosesByComponent resp) (pr_GeoPoses resp)))"

text \<open>\<open>newID\<close> is what \<open>uuid.New()\<close> returns for the plan, when the call is reached.\<close>

definition newPlanWithExecutor ::
  "'r execution \<Rightarrow> motionplan_Plan option \<Rightarrow> int \<Rightarrow> uuid \<Rightarrow> error + planWithExecutor" where
  "newPlanWithExecutor e seedPlan replanCount newID =
     (case e_planExecutorConstructor e (e_req e) seedPlan replanCount of
        Inl err \<Rightarrow> Inl err
      | Inr pe \<Rightarrow>
          (case pe_Plan pe of
             Inl err \<Rightarrow> Inl err
           | Inr resp \<Rightarrow>
               (case toGeoPosePlanSteps resp of
                  Inl err \<Rightarrow> Inl err
                | Inr steps \<Rightarrow>
                    Inr \<lparr>pwe_plan = \<lparr>ID = newID, ExecutionID = e_id e,
                                     ComponentName = e_componentName e, Steps = steps\<rparr>,
                         pwe_planExecutor = pe,
                         pwe_waypoints = pr_Waypoints resp,
                         pwe_motionplan = pr_Motionplan resp\<rparr>)))"

subsection \<open>Notifications (each one holds the state's lock from start to end)\<close>

definition notifyStateNewExecution ::
  "'r State \<Rightarrow> stateExecution \<Rightarrow> Plan \<Rightarrow> Time \<Rightarrow> 'r State outcome" where
  "notifyStateNewExecution s execution plan time =
     updateStateNewPlan (updateStateNewExecution s execution)
       \<lparr>npm_plan = plan,
        npm_planStatus = \<lparr>State = PlanStateInProgress, Timestamp = time, Reason = None\<rparr>\<rparr>"

definition notifyStateNewPlan :: "'r State \<Rightarrow> Plan \<Rightarrow> Time \<Rightarrow> 'r State outcome" where
  "notifyStateNewPlan s plan time =
     updateStateNewPlan s
       \<lparr>npm_plan = plan,
        npm_planStatus = \<lparr>State = PlanStateInProgress, Timestamp = time, Reason = None\<rparr>\<rparr>"

definition notifyStatePlanFailed ::
  "'r State \<Rightarrow> 'r execution \<Rightarrow> Plan \<Rightarrow> string \<Rightarrow> Time \<Rightarrow> 'r State outcome" where
  "notifyStatePlanFailed s e plan reason time =
     updateStateStatusUpdate s
       \<lparr>sum_componentName = e_componentName e, sum_executionID = e_id e, sum_planID = ID plan,
        sum_planStatus = \<lparr>State = PlanStateFailed, Timestamp = time, Reason = Some reason\<rparr>\<rparr>"

definition notifyStatePlanSucceeded ::
  "'r State \<Rightarrow> 'r execution \<Rightarrow> Plan \<Rightarrow> Time \<Rightarrow> 'r State outcome" where
  "notifyStatePlanSucceeded s e plan time =
     updateStateStatusUpdate s
       \<lparr>sum_componentName = e_componentName e, sum_executionID = e_id e, sum_planID = ID plan,
        sum_planStatus = \<lparr>State = PlanStateSucceeded, Timestamp = time, Reason = None\<rparr>\<rparr>"

definition notifyStatePlanStopped ::
  "'r State \<Rightarrow> 'r execution \<Rightarrow> Plan \<Rightarrow> Time \<Rightarrow> 'r State outcome" where
  "notifyStatePlanStopped s e plan time =
     updateStateStatusUpdate s
       \<lparr>sum_componentName = e_componentName e, sum_executionID = e_id e, sum_planID = ID plan,
        sum_planStatus = \<lparr>State = PlanStateStopped, Timestamp = time, Reason = None\<rparr>\<rparr>"

subsection \<open>Starting an execution\<close>

text \<open>
  The wait group and the cancel function of a new execution are those of the goroutine
  \<open>start\<close> is about to launch, which takes the next free index.
\<close>

definition toStateExecution :: "'r State \<Rightarrow> 'r execution \<Rightarrow> stateExecution" where
  "toStateExecution s e =
     \<lparr>se_id = e_id e, se_componentName = e_componentName e,
      se_goroutine = Some (length (goroutines s)), se_history = []\<rparr>"

definition start ::
  "'r State \<Rightarrow> 'r execution \<Rightarrow> uuid \<Rightarrow> Time \<Rightarrow> ('r State \<times> error option) outcome" where
  "start s e newPlanID now =
     (case newPlanWithExecutor e None 0 newPlanID of
        Inl err \<Rightarrow> Return (s, Some err)
      | Inr originalPlanWithExecutor \<Rightarrow>
          (case notifyStateNewExecution s (toStateExecution s e)
                  (pwe_plan originalPlanWithExecutor) now of
             Panic \<Rightarrow> Panic
           | Return s' \<Rightarrow>
               Return (s'\<lparr>goroutines := goroutines s' @
                          [\<lparr>g_e = e, g_lastPWE = originalPlanWithExecutor, g_replanCount = 0,
                            g_pc = AtSelect, g_cancelCtx_done = False,
                            g_executorCancelCtx_done = False\<rparr>]\<rparr>, None)))"

text \<open>
  \<open>StartExecution\<close> takes a pointer to the state, which may be nil. \<open>newID\<close> and
  \<open>newPlanID\<close> are the results of the two \<open>uuid.New()\<close> calls, \<open>now\<close> that of
  \<open>time.Now()\<close>. The result is the returned pair and the state after the call.
\<close>

definition StartExecution ::
  "'r State option \<Rightarrow> Name \<Rightarrow> 'r \<Rightarrow> 'r PlanExecutorConstructor \<Rightarrow> uuid \<Rightarrow> uuid \<Rightarrow> Time
     \<Rightarrow> ((ExecutionID \<times> error option) \<times> 'r State option) outcome" where
  "StartExecution sp componentName req planExecutorConstructor newID newPlanID now =
     (case sp of
        None \<Rightarrow> Return ((uuid_Nil, Some ErrStateIsNil), None)
      | Some s \<Rightarrow>
          (case ValidateNoActiveExecutionID s componentName of
             Panic \<Rightarrow> Panic
           | Return (Some err) \<Rightarrow> Return ((uuid_Nil, Some err), Some s)
           | Return None \<Rightarrow>
               (let e = \<lparr>e_id = newID, e_componentName = componentName, e_req = req,
                         e_planExecutorConstructor = planExecutorConstructor\<rparr>
                in case start s e newPlanID now of
                     Panic \<Rightarrow> Panic
                   | Return (s', Some err) \<Rightarrow> Return ((uuid_Nil, Some err), Some s')
                   | Return (s', None) \<Rightarrow> Return ((e_id e, None), Some s'))))"

subsection \<open>The execution's goroutine\<close>

text \<open>
  The goroutine runs under \<open>utils.PanicCapturingGo\<close>: a panic ends it (the deferred
  \<open>Done\<close> calls run) and is logged. The update functions panic before they write, so the
  map is as it was.
\<close>

definition goroutine_return ::
  "'r State \<Rightarrow> nat \<Rightarrow> 'r goroutine \<Rightarrow> 'r State outcome \<Rightarrow> 'r State" where
  "goroutine_return s h g out =
     (case out of
        Panic \<Rightarrow> (log_error s LogGoroutinePanic)
                   \<lparr>goroutines := (goroutines s)[h := (goroutines s ! h)\<lparr>g_pc := Returned\<rparr>]\<rparr>
      | Return s' \<Rightarrow> s'\<lparr>goroutines := (goroutines s')[h := g\<lparr>g_pc := Returned\<rparr>]\<rparr>)"

datatype select_case = CaseCancelCtxDone | CaseResChan

text \<open>
  Which cases of the \<open>select\<close> can be taken: the execution's context is done once its own
  cancel function or the state's has been called; \<open>resChan\<close> holds a value once
  \<open>Execute\<close> has returned.
\<close>

definition select_ready :: "'r State \<Rightarrow> nat \<Rightarrow> select_case \<Rightarrow> bool" where
  "select_ready s h sc =
     (let g = goroutines s ! h in
      case sc of
        CaseCancelCtxDone \<Rightarrow> cancelCtx_done s \<or> g_cancelCtx_done g
      | CaseResChan \<Rightarrow>
          pe_Execute (pwe_planExecutor (g_lastPWE g)) (pwe_waypoints (g_lastPWE g)) \<noteq> None)"

text \<open>
  One pass of the loop of goroutine \<open>h\<close>, from the \<open>select\<close> up to the return or, when it
  replans, up to the end of \<open>notifyStatePlanFailed\<close>.
\<close>

definition loop_select :: "'r State \<Rightarrow> nat \<Rightarrow> select_case \<Rightarrow> uuid \<Rightarrow> Time \<Rightarrow> 'r State" where
  "loop_select s h sc newPlanID now =
     (let g = goroutines s ! h; e = g_e g; lastPWE = g_lastPWE g in
      case sc of
        CaseCancelCtxDone \<Rightarrow>
          goroutine_return s h (g\<lparr>g_executorCancelCtx_done := True\<rparr>)
            (notifyStatePlanStopped s e (pwe_plan lastPWE) now)
      | CaseResChan \<Rightarrow>
          (case pe_Execute (pwe_planExecutor lastPWE) (pwe_waypoints lastPWE) of
             None \<Rightarrow> s
           | Some (resp, err) \<Rightarrow>
               (case (Replan resp, err) of
                  (False, None) \<Rightarrow>
                    goroutine_return s h g (notifyStatePlanSucceeded s e (pwe_plan lastPWE) now)
                | (False, Some err') \<Rightarrow>
                    goroutine_return s h g
                      (notifyStatePlanFailed s e (pwe_plan lastPWE) (Error err') now)
                | (True, _) \<Rightarrow>
                    (let replanReason =
                           (case err of
                              None \<Rightarrow> ''replan triggered without providing a reason''
                            | Some err' \<Rightarrow> Error err');
                         replanCount = g_replanCount g + 1;
                         g' = g\<lparr>g_replanCount := replanCount\<rparr>
                     in case newPlanWithExecutor e (Some (pwe_motionplan lastPWE)) replanCount
                               newPlanID of
                          Inl err' \<Rightarrow>
                            goroutine_return s h g'
                              (notifyStatePlanFailed s e (pwe_plan lastPWE) (Error err') now)
                        | Inr newPWE \<Rightarrow>
                            (case notifyStatePlanFailed s e (pwe_plan lastPWE) replanReason now of
                               Panic \<Rightarrow> goroutine_return s h g' Panic
                             | Return s' \<Rightarrow>
                                 s'\<lparr>goroutines :=
                                      (goroutines s')[h := g'\<lparr>g_pc := AtNotifyNewPlan newPWE\<rparr>]\<rparr>)))))"

text \<open>The rest of a replanning pass: \<open>notifyStateNewPlan\<close>, then back to the \<open>select\<close>.\<close>

definition loop_notifyNewPlan :: "'r State \<Rightarrow> nat \<Rightarrow> Time \<Rightarrow> 'r State" where
  "loop_notifyNewPlan s h now =
     (let g = goroutines s ! h in
      case g_pc g of
        AtNotifyNewPlan newPWE \<Rightarrow>
          (case notifyStateNewPlan s (pwe_plan newPWE) now of
             Panic \<Rightarrow> goroutine_return s h g Panic
           | Return s' \<Rightarrow>
               s'\<lparr>goroutines := (goroutines s')[h := g\<lparr>g_lastPWE := newPWE, g_pc := AtSelect\<rparr>]\<rparr>)
      | _ \<Rightarrow> s)"

subsection \<open>Stopping\<close>

definition cancelCauseFunc :: "'r State \<Rightarrow> nat \<Rightarrow> 'r State" where
  "cancelCauseFunc s h =
     s\<lparr>goroutines := (goroutines s)[h := (goroutines s ! h)\<lparr>g_cancelCtx_done := True\<rparr>]\<rparr>"

text \<open>
  What the goroutines do while a caller waits: each entry is one step of one goroutine,
  with the values the environment gave it.
\<close>

datatype goroutine_step = StepSelect nat select_case uuid Time | StepNotifyNewPlan nat Time

fun run_step :: "'r State \<Rightarrow> goroutine_step \<Rightarrow> 'r State option" where
  "run_step s (StepSelect h sc newPlanID now) =
     (if h < length (goroutines s) \<and> g_pc (goroutines s ! h) = AtSelect \<and> select_ready s h sc
      then Some (loop_select s h sc newPlanID now) else None)"
| "run_step s (StepNotifyNewPlan h now) =
     (if h < length (goroutines s)
      then (case g_pc (goroutines s ! h) of
              AtNotifyNewPlan _ \<Rightarrow> Some (loop_notifyNewPlan s h now)
            | _ \<Rightarrow> None)
      else None)"

text \<open>
  \<open>waitGroup.Wait()\<close> on the wait group of goroutine \<open>h\<close> returns once that goroutine has
  returned; until then the goroutines take the steps of \<open>sched\<close>. \<open>None\<close>: the caller is
  still blocked when \<open>sched\<close> is used up (or \<open>sched\<close> asks for a step that cannot be
  taken).
\<close>

fun waitGroup_Wait :: "'r State \<Rightarrow> nat \<Rightarrow> goroutine_step list \<Rightarrow> 'r State option" where
  "waitGroup_Wait s h sched =
     (if h < length (goroutines s) \<and> g_pc (goroutines s ! h) = Returned then Some s
      else (case sched of
              [] \<Rightarrow> None
            | st # rest \<Rightarrow>
                (case run_step s st of None \<Rightarrow> None | Some s' \<Rightarrow> waitGroup_Wait s' h rest)))"

text \<open>\<open>stateExecution.stop\<close>; calling the nil cancel function of a zero value panics.\<close>

definition stop :: "'r State \<Rightarrow> stateExecution \<Rightarrow> goroutine_step list \<Rightarrow> 'r State outcome option" where
  "stop s e sched =
     (case se_goroutine e of
        None \<Rightarrow> Some Panic
      | Some h \<Rightarrow> map_option Return (waitGroup_Wait (cancelCauseFunc s h) h sched))"

definition StopExecutionByResource ::
  "'r State \<Rightarrow> Name \<Rightarrow> goroutine_step list \<Rightarrow> (error option \<times> 'r State) outcome option" where
  "StopExecutionByResource s componentName sched =
     (case componentStateByComponent s componentName of
        None \<Rightarrow> Some (Return (Some ErrUnknownResource, s))
      | Some componentExectionState \<Rightarrow>
          (case lastExecutionID componentExectionState of
             Panic \<Rightarrow> Some Panic
           | Return i \<Rightarrow>
               (case executionsByID componentExectionState i of
                  None \<Rightarrow> Some (Return (Some ErrNotFound, s))
                | Some e \<Rightarrow>
                    (case stop s e sched of
                       None \<Rightarrow> None
                     | Some Panic \<Rightarrow> Some Panic
                     | Some (Return s') \<Rightarrow> Some (Return (None, s'))))))"

subsection \<open>What can happen to a state\<close>

text \<open>\<open>State.Stop\<close> cancels the state's context before it waits.\<close>

definition Stop_cancel :: "'r State \<Rightarrow> 'r State" where
  "Stop_cancel s = s\<lparr>cancelCtx_done := True\<rparr>"

text \<open>
  \<open>uuid.New()\<close> draws a random version-4 identifier: it is not \<open>uuid.Nil\<close> and, by the
  library's contract, not one it gave to an execution before.
\<close>

definition fresh_ExecutionID :: "'r State \<Rightarrow> ExecutionID \<Rightarrow> bool" where
  "fresh_ExecutionID s i \<longleftrightarrow> (\<forall>g \<in> set (goroutines s). e_id (g_e g) \<noteq> i)"

text \<open>
  One atomic step of the package on a state: \<open>start\<close> (the part of \<open>StartExecution\<close>
  that writes; the check before it is made under another acquisition of the lock, so a step
  does not assume it), a step of a goroutine, a cancellation of one execution
  (\<open>stateExecution.stop\<close>) or of the state (\<open>State.Stop\<close>). With \<open>u\<close> set, \<open>uuid.New()\<close>
  keeps its contract for execution identifiers.
\<close>

inductive step :: "bool \<Rightarrow> 'r State \<Rightarrow> 'r State \<Rightarrow> bool" for u :: bool where
  step_start:
    "(u \<longrightarrow> fresh_ExecutionID s (e_id e)) \<Longrightarrow> start s e newPlanID now = Return (s', err)
       \<Longrightarrow> step u s s'"
| step_goroutine:
    "run_step s st = Some s' \<Longrightarrow> step u s s'"
| step_cancel:
    "h < length (goroutines s) \<Longrightarrow> step u s (cancelCauseFunc s h)"
| step_Stop:
    "step u s (Stop_cancel s)"

definition reachable :: "bool \<Rightarrow> 'r State \<Rightarrow> bool" where
  "reachable u s \<longleftrightarrow> (step u)\<^sup>*\<^sup>* NewState s"

subsection \<open>Properties of a state\<close>

definition wf_stateExecution :: "stateExecution \<Rightarrow> bool" where
  "wf_stateExecution e \<longleftrightarrow>
     se_history e \<noteq> [] \<and> (\<forall>pws \<in> set (se_history e). StatusHistory pws \<noteq> [])"

definition wf_componentState :: "componentState \<Rightarrow> bool" where
  "wf_componentState cs \<longleftrightarrow>
     executionIDHistory cs \<noteq> []
     \<and> set (executionIDHistory cs) \<subseteq> dom (executionsByID cs)
     \<and> (\<forall>e \<in> ran (executionsByID cs). wf_stateExecution e)"

definition wf_store :: "'r State \<Rightarrow> bool" where
  "wf_store s \<longleftrightarrow> (\<forall>cs \<in> ran (componentStateByComponent s). wf_componentState cs)"

definition newest_state :: "PlanWithStatus \<Rightarrow> PlanState option" where
  "newest_state pws = (case StatusHistory pws of [] \<Rightarrow> None | st # _ \<Rightarrow> Some (State st))"

definition older_plans_terminal :: "stateExecution \<Rightarrow> bool" where
  "older_plans_terminal e \<longleftrightarrow>
     (\<forall>pws \<in> set (tl (se_history e)).
        case newest_state pws of None \<Rightarrow> False | Some st \<Rightarrow> TerminalStateSet st)"

definition only_newest_plan_nonterminal :: "'r State \<Rightarrow> bool" where
  "only_newest_plan_nonterminal s \<longleftrightarrow>
     (\<forall>cs \<in> ran (componentStateByComponent s). \<forall>e \<in> ran (executionsByID cs).
        older_plans_terminal e)"

definition initial_plan :: "PlanWithStatus \<Rightarrow> bool" where
  "initial_plan pws \<longleftrightarrow>
     (case StatusHistory pws of [st] \<Rightarrow> State st = PlanStateInProgress | _ \<Rightarrow> False)"

definition newest_Failed :: "PlanWithStatus list \<Rightarrow> bool" where
  "newest_Failed hist \<longleftrightarrow>
     (case hist of [] \<Rightarrow> True | prev # _ \<Rightarrow> newest_state prev = Some PlanStateFailed)"

text \<open>
  How the plan history of one execution may differ after a step: the same plans, or one
  more plan in front, initially in progress, the plan before it failed.
\<close>

definition history_step :: "PlanWithStatus list \<Rightarrow> PlanWithStatus list \<Rightarrow> bool" where
  "history_step old new \<longleftrightarrow>
     map Plan new = map Plan old
     \<or> (\<exists>pws. new = pws # old \<and> initial_plan pws \<and> newest_Failed old)"

definition lookup :: "'r State \<Rightarrow> Name \<Rightarrow> ExecutionID \<Rightarrow> stateExecution option" where
  "lookup s c i =
     (case componentStateByComponent s c of None \<Rightarrow> None | Some cs \<Rightarrow> executionsByID cs i)"

definition idhist :: "'r State \<Rightarrow> Name \<Rightarrow> ExecutionID list" where
  "idhist s c =
     (case componentStateByComponent s c of None \<Rightarrow> [] | Some cs \<Rightarrow> executionIDHistory cs)"

definition history_of :: "'r State \<Rightarrow> Name \<Rightarrow> ExecutionID \<Rightarrow> PlanWithStatus list" where
  "history_of s c i = (case lookup s c i of None \<Rightarrow> [] | Some e \<Rightarrow> se_history e)"

definition plans_appended_in_order :: "'r State \<Rightarrow> 'r State \<Rightarrow> bool" where
  "plans_appended_in_order s s' \<longleftrightarrow>
     (\<forall>c i. history_step (history_of s c i) (history_of s' c i))"

subsection \<open>Observing a state\<close>

text \<open>
  What the proofs look at in a state: whether a component has an entry, its identifier
  history, its executions, and the goroutines.
\<close>

definition known :: "'r State \<Rightarrow> Name \<Rightarrow> bool" where
  "known s c \<longleftrightarrow> componentStateByComponent s c \<noteq> None"

definition exec_at :: "'r State \<Rightarrow> Name \<Rightarrow> ExecutionID \<Rightarrow> stateExecution" where
  "exec_at s c i = (case lookup s c i of None \<Rightarrow> zero_stateExecution | Some e \<Rightarrow> e)"

text \<open>
  What holds of a goroutine and of the executions' pointers in every state the package
  can reach: the plans a goroutine holds are plans of its execution, its execution is
  recorded, and every recorded execution points at a goroutine.
\<close>

definition plan_of :: "'r execution \<Rightarrow> Plan \<Rightarrow> bool" where
  "plan_of e p \<longleftrightarrow> ExecutionID p = e_id e \<and> ComponentName p = e_componentName e"

definition goroutine_ok :: "'r State \<Rightarrow> 'r goroutine \<Rightarrow> bool" where
  "goroutine_ok s g \<longleftrightarrow>
     lookup s (e_componentName (g_e g)) (e_id (g_e g)) \<noteq> None
     \<and> plan_of (g_e g) (pwe_plan (g_lastPWE g))
     \<and> (case g_pc g of AtNotifyNewPlan newPWE \<Rightarrow> plan_of (g_e g) (pwe_plan newPWE) | _ \<Rightarrow> True)"

definition handles_ok :: "'r State \<Rightarrow> bool" where
  "handles_ok s \<longleftrightarrow>
     (\<forall>c i e. lookup s c i = Some e \<longrightarrow>
        (\<exists>h. se_goroutine e = Some h \<and> h < length (goroutines s)))"

definition Inv9 :: "'r State \<Rightarrow> bool" where
  "Inv9 s \<longleftrightarrow> wf_store s \<and> handles_ok s
     \<and> (\<forall>k < length (goroutines s). goroutine_ok s (goroutines s ! k))"

definition status_msg :: "'r goroutine \<Rightarrow> PlanStatus \<Rightarrow> stateUpdateMsg" where
  "status_msg g st = \<lparr>sum_componentName = e_componentName (g_e g), sum_executionID = e_id (g_e g),
        sum_planID = ID (pwe_plan (g_lastPWE g)), sum_planStatus = st\<rparr>"

subsection \<open>Planner and executor doubles of the package's tests, and states they lead to\<close>

definition myBase :: Name where
  "myBase = ''mybase''"

definition emptyPlanResp :: PlanResp where
  "emptyPlanResp =
     \<lparr>pr_Waypoints = [], pr_Motionplan = [], pr_GeoPoses = [], pr_PosesByComponent = []\<rparr>"

definition executionWaitingForCtxCancelledPlanConstructor :: "unit PlanExecutorConstructor" where
  "executionWaitingForCtxCancelledPlanConstructor =
     (\<lambda>req seedPlan replanCount. Inr \<lparr>pe_Plan = Inr emptyPlanResp, pe_Execute = (\<lambda>wp. None)\<rparr>)"

definition replanPlanConstructor :: "unit PlanExecutorConstructor" where
  "replanPlanConstructor =
     (\<lambda>req seedPlan replanCount.
        Inr \<lparr>pe_Plan = Inr emptyPlanResp,
             pe_Execute = (\<lambda>wp. Some (\<lparr>Replan = True, ReplanReason = ''drift''\<rparr>, None))\<rparr>)"

definition failedPlanningPlanConstructor :: "unit PlanExecutorConstructor" where
  "failedPlanningPlanConstructor =
     (\<lambda>req seedPlan replanCount.
        Inr \<lparr>pe_Plan = Inl (ErrExternal ''planning failed''),
             pe_Execute = (\<lambda>wp. Some (\<lparr>Replan = True, ReplanReason = ''drift''\<rparr>, None))\<rparr>)"

definition new_goroutine :: "'r execution \<Rightarrow> planWithExecutor \<Rightarrow> 'r goroutine" where
  "new_goroutine e pwe =
     \<lparr>g_e = e, g_lastPWE = pwe, g_replanCount = 0, g_pc = AtSelect, g_cancelCtx_done = False,
      g_executorCancelCtx_done = False\<rparr>"

definition in_progress_plan :: "PlanID \<Rightarrow> ExecutionID \<Rightarrow> Name \<Rightarrow> Time \<Rightarrow> PlanWithStatus" where
  "in_progress_plan p i c t =
     \<lparr>Plan = \<lparr>ID = p, ExecutionID = i, ComponentName = c, Steps = []\<rparr>,
      StatusHistory = [\<lparr>State = PlanStateInProgress, Timestamp = t, Reason = None\<rparr>]\<rparr>"

text \<open>
  \<open>state_active\<close>: a new state after one \<open>StartExecution\<close> for \<open>mybase\<close> whose executor
  blocks (execution 1, plan 2, at time 10).
\<close>

definition state_active :: "unit State" where
  "state_active =
     \<lparr>componentStateByComponent =
        [myBase \<mapsto>
           \<lparr>executionIDHistory = [1],
            executionsByID =
              [1 \<mapsto> \<lparr>se_id = 1, se_componentName = myBase, se_goroutine = Some 0,
                       se_history = [in_progress_plan 2 1 myBase 10]\<rparr>]\<rparr>],
      logger = [], cancelCtx_done = False,
      goroutines =
        [new_goroutine
           \<lparr>e_id = 1, e_componentName = myBase, e_req = (),
            e_planExecutorConstructor = executionWaitingForCtxCancelledPlanConstructor\<rparr>
           \<lparr>pwe_plan = \<lparr>ID = 2, ExecutionID = 1, ComponentName = myBase, Steps = []\<rparr>,
            pwe_planExecutor = \<lparr>pe_Plan = Inr emptyPlanResp, pe_Execute = (\<lambda>wp. None)\<rparr>,
            pwe_waypoints = [], pwe_motionplan = []\<rparr>]\<rparr>"

definition state_after :: "('a \<times> 'r State option) outcome \<Rightarrow> 'r State" where
  "state_after out = (case out of Return (_, Some s) \<Rightarrow> s | _ \<Rightarrow> NewState)"

definition state_replan :: "unit State" where
  "state_replan = state_after (StartExecution (Some NewState) myBase () replanPlanConstructor 1 2 10)"

definition failed_without_reason :: PlanWithStatus where
  "failed_without_reason =
     \<lparr>Plan = \<lparr>ID = 2, ExecutionID = 1, ComponentName = myBase, Steps = []\<rparr>,
      StatusHistory =
        [\<lparr>State = PlanStateFailed, Timestamp = 20,
          Reason = Some ''replan triggered without providing a reason''\<rparr>,
         \<lparr>State = PlanStateInProgress, Timestamp = 10, Reason = None\<rparr>]\<rparr>"

section \<open>Properties\<close>

subsection \<open>Effects of the updates on what is observed\<close>

lemma wf_store_iff:
  "wf_store s \<longleftrightarrow>
     (\<forall>c. known s c \<longrightarrow> idhist s c \<noteq> [])
     \<and> (\<forall>c. \<forall>i \<in> set (idhist s c). lookup s c i \<noteq> None)
     \<and> (\<forall>c i e. lookup s c i = Some e \<longrightarrow> wf_stateExecution e)"
  (is "?L \<longleftrightarrow> ?R")
proof
  assume L: ?L
  show ?R
  proof (intro conjI allI impI ballI)
    fix c assume "known s c"
    with L show "idhist s c \<noteq> []"
      by (auto simp: known_def idhist_def wf_store_def wf_componentState_def ran_def)
  next
    fix c i assume "i \<in> set (idhist s c)"
    with L show "lookup s c i \<noteq> None"
      by (cases "componentStateByComponent s c")
         (auto simp: idhist_def lookup_def wf_store_def wf_componentState_def ran_def)
  next
    fix c i e assume "lookup s c i = Some e"
    with L show "wf_stateExecution e"
      by (cases "componentStateByComponent s c")
         (auto simp: lookup_def wf_store_def wf_componentState_def ran_def)
  qed
next
  assume R: ?R
  show ?L
    unfolding wf_store_def wf_componentState_def
  proof (intro ballI conjI)
    fix cs assume "cs \<in> ran (componentStateByComponent s)"
    then obtain c where c: "componentStateByComponent s c = Some cs"
      by (auto simp: ran_def)
    then have k: "known s c" and h: "idhist s c = executionIDHistory cs"
      and l: "\<And>i. lookup s c i = executionsByID cs i"
      by (simp_all add: known_def idhist_def lookup_def)
    from R k h show "executionIDHistory cs \<noteq> []" by auto
    from R h l show "set (executionIDHistory cs) \<subseteq> dom (executionsByID cs)"
      by (metis domIff subsetI)
    fix e assume "e \<in> ran (executionsByID cs)"
    then obtain i where "executionsByID cs i = Some e" by (auto simp: ran_def)
    with R l show "wf_stateExecution e" by metis
  qed
qed

lemma observers_log_error [simp]:
  "lookup (log_error s l) = lookup s" "idhist (log_error s l) = idhist s"
  "known (log_error s l) = known s" "goroutines (log_error s l) = goroutines s"
  "cancelCtx_done (log_error s l) = cancelCtx_done s"
  "componentStateByComponent (log_error s l) = componentStateByComponent s"
  by (auto simp: lookup_def idhist_def known_def log_error_def fun_eq_iff)

lemma observers_goroutines_update [simp]:
  "lookup (s\<lparr>goroutines := gs\<rparr>) = lookup s" "idhist (s\<lparr>goroutines := gs\<rparr>) = idhist s"
  "known (s\<lparr>goroutines := gs\<rparr>) = known s"
  by (auto simp: lookup_def idhist_def known_def fun_eq_iff)

lemma observers_cancel_update [simp]:
  "lookup (s\<lparr>cancelCtx_done := b\<rparr>) = lookup s" "idhist (s\<lparr>cancelCtx_done := b\<rparr>) = idhist s"
  "known (s\<lparr>cancelCtx_done := b\<rparr>) = known s"
  by (auto simp: lookup_def idhist_def known_def fun_eq_iff)

lemma updateStateStatusUpdate_effect:
  assumes "updateStateStatusUpdate s upd = Return s'"
  shows "idhist s' = idhist s \<and> known s' = known s \<and> goroutines s' = goroutines s
         \<and> cancelCtx_done s' = cancelCtx_done s
         \<and> (lookup s' = lookup s
            \<or> (\<exists>ex pws older.
                  lookup s (sum_componentName upd) (sum_executionID upd) = Some ex
                  \<and> se_history ex = pws # older \<and> ID (Plan pws) = sum_planID upd
                  \<and> lookup s' = (\<lambda>c i. if c = sum_componentName upd \<and> i = sum_executionID upd
                       then Some (ex\<lparr>se_history :=
                              pws\<lparr>StatusHistory := sum_planStatus upd # StatusHistory pws\<rparr> # older\<rparr>)
                       else lookup s c i)))"
  using assms
  by (auto simp: updateStateStatusUpdate_def Let_def executionsByID_at_def zero_stateExecution_def
      lookup_def idhist_def known_def fun_eq_iff
      split: if_splits option.splits list.splits)

lemma updateStateNewPlan_effect:
  assumes "updateStateNewPlan s m = Return s'"
  shows "idhist s' = idhist s \<and> known s' = known s \<and> goroutines s' = goroutines s
         \<and> cancelCtx_done s' = cancelCtx_done s
         \<and> (lookup s' = lookup s
            \<or> (State (npm_planStatus m) = PlanStateInProgress
                \<and> (\<exists>rest. idhist s (ComponentName (npm_plan m)) = ExecutionID (npm_plan m) # rest)
                \<and> lookup s' = (\<lambda>c i. if c = ComponentName (npm_plan m) \<and> i = ExecutionID (npm_plan m)
                       then Some ((exec_at s c i)\<lparr>se_history :=
                              \<lparr>Plan = npm_plan m, StatusHistory = [npm_planStatus m]\<rparr>
                                # se_history (exec_at s c i)\<rparr>)
                       else lookup s c i)))"
  using assms
  by (auto simp: updateStateNewPlan_def Let_def executionsByID_at_def zero_componentState_def
      componentStateByComponent_at_def lastExecutionID_def exec_at_def
      lookup_def idhist_def known_def fun_eq_iff
      split: if_splits option.splits list.splits)

lemma updateStateNewExecution_effect:
  "goroutines (updateStateNewExecution s newE) = goroutines s
   \<and> cancelCtx_done (updateStateNewExecution s newE) = cancelCtx_done s
   \<and> (lookup s (se_componentName newE) (se_id newE) \<noteq> None
        \<and> lookup (updateStateNewExecution s newE) = lookup s
        \<and> idhist (updateStateNewExecution s newE) = idhist s
        \<and> known (updateStateNewExecution s newE) = known s
      \<or> lookup s (se_componentName newE) (se_id newE) = None
        \<and> lookup (updateStateNewExecution s newE)
            = (\<lambda>c i. if c = se_componentName newE \<and> i = se_id newE then Some newE else lookup s c i)
        \<and> idhist (updateStateNewExecution s newE)
            = (\<lambda>c. if c = se_componentName newE then se_id newE # idhist s c else idhist s c)
        \<and> known (updateStateNewExecution s newE)
            = (\<lambda>c. c = se_componentName newE \<or> known s c))"
  by (auto simp: updateStateNewExecution_def lookup_def idhist_def known_def fun_eq_iff
      split: option.splits)

lemma newPlanWithExecutor_plan:
  "newPlanWithExecutor e seed n pid = Inr pwe \<Longrightarrow> plan_of e (pwe_plan pwe) \<and> ID (pwe_plan pwe) = pid"
  by (auto simp: newPlanWithExecutor_def plan_of_def split: sum.splits)

lemma goroutine_return_effect:
  "goroutine_return s h g out =
     (case out of Panic \<Rightarrow> (log_error s LogGoroutinePanic)
                     \<lparr>goroutines := (goroutines (log_error s LogGoroutinePanic))
                        [h := (goroutines s ! h)\<lparr>g_pc := Returned\<rparr>]\<rparr>
      | Return s' \<Rightarrow> s'\<lparr>goroutines := (goroutines s')[h := g\<lparr>g_pc := Returned\<rparr>]\<rparr>)"
  by (simp add: goroutine_return_def split: outcome.splits)

lemma loop_select_effect:
  assumes "g = goroutines s ! h"
  shows "loop_select s h sc pid now = s
    \<or> (\<exists>s1 g'. loop_select s h sc pid now = s1\<lparr>goroutines := (goroutines s1)[h := g']\<rparr>
          \<and> g_e g' = g_e g \<and> g_lastPWE g' = g_lastPWE g
          \<and> ((s1 = log_error s LogGoroutinePanic \<and> g_pc g' = Returned)
             \<or> (\<exists>st. updateStateStatusUpdate s (status_msg g st) = Return s1
                  \<and> (g_pc g' = Returned
                     \<or> (State st = PlanStateFailed
                        \<and> (\<exists>newPWE. g_pc g' = AtNotifyNewPlan newPWE
                              \<and> plan_of (g_e g) (pwe_plan newPWE)))))))"
proof -
  let ?e = "g_e g" and ?l = "g_lastPWE g"
  have ret: "\<And>g0 st. g_e g0 = g_e g \<Longrightarrow> g_lastPWE g0 = g_lastPWE g \<Longrightarrow>
      \<exists>s1 g'. goroutine_return s h g0 (updateStateStatusUpdate s (status_msg g st))
                = s1\<lparr>goroutines := (goroutines s1)[h := g']\<rparr>
          \<and> g_e g' = g_e g \<and> g_lastPWE g' = g_lastPWE g
          \<and> ((s1 = log_error s LogGoroutinePanic \<and> g_pc g' = Returned)
             \<or> (\<exists>st. updateStateStatusUpdate s (status_msg g st) = Return s1
                  \<and> (g_pc g' = Returned
                     \<or> (State st = PlanStateFailed
                        \<and> (\<exists>newPWE. g_pc g' = AtNotifyNewPlan newPWE
                              \<and> plan_of (g_e g) (pwe_plan newPWE))))))"
  proof -
    fix g0 :: "'a goroutine" and st
    assume g0: "g_e g0 = g_e g" "g_lastPWE g0 = g_lastPWE g"
    show "?thesis g0 st"
    proof (cases "updateStateStatusUpdate s (status_msg g st)")
      case Panic
      show ?thesis
        apply (rule exI[of _ "log_error s LogGoroutinePanic"])
        apply (rule exI[of _ "g\<lparr>g_pc := Returned\<rparr>"])
        using Panic assms by (simp add: goroutine_return_effect)
    next
      case (Return s1)
      show ?thesis
        apply (rule exI[of _ s1])
        apply (rule exI[of _ "g0\<lparr>g_pc := Returned\<rparr>"])
        using Return g0 by (auto simp: goroutine_return_effect)
    qed
  qed
  show ?thesis
  proof (cases sc)
    case CaseCancelCtxDone
    have "loop_select s h sc pid now = goroutine_return s h (g\<lparr>g_executorCancelCtx_done := True\<rparr>)
            (updateStateStatusUpdate s (status_msg g \<lparr>State = PlanStateStopped, Timestamp = now, Reason = None\<rparr>))"
      using CaseCancelCtxDone assms
      by (simp add: loop_select_def Let_def notifyStatePlanStopped_def status_msg_def)
    with ret[of "g\<lparr>g_executorCancelCtx_done := True\<rparr>"] show ?thesis by simp
  next
    case CaseResChan
    show ?thesis
    proof (cases "pe_Execute (pwe_planExecutor ?l) (pwe_waypoints ?l)")
      case None
      with CaseResChan assms show ?thesis by (simp add: loop_select_def Let_def)
    next
      case (Some r)
      obtain resp err where r: "r = (resp, err)" by (cases r)
      show ?thesis
      proof (cases "Replan resp")
        case False
        show ?thesis
        proof (cases err)
          case None
          have "loop_select s h sc pid now = goroutine_return s h g
            (updateStateStatusUpdate s (status_msg g \<lparr>State = PlanStateSucceeded, Timestamp = now, Reason = None\<rparr>))"
            using CaseResChan assms Some r False None
            by (simp add: loop_select_def Let_def notifyStatePlanSucceeded_def status_msg_def)
          with ret[of g] show ?thesis by simp
        next
          case (Some err')
          have "loop_select s h sc pid now = goroutine_return s h g
            (updateStateStatusUpdate s (status_msg g \<lparr>State = PlanStateFailed, Timestamp = now, Reason = Some (Error err')\<rparr>))"
            using CaseResChan assms \<open>pe_Execute (pwe_planExecutor ?l) (pwe_waypoints ?l) = Some r\<close> r False Some
            by (simp add: loop_select_def Let_def notifyStatePlanFailed_def status_msg_def)
          with ret[of g] show ?thesis by simp
        qed
      next
        case True
        let ?reason = "case err of None \<Rightarrow> ''replan triggered without providing a reason''
                            | Some err' \<Rightarrow> Error err'"
        let ?g' = "g\<lparr>g_replanCount := g_replanCount g + 1\<rparr>"
        show ?thesis
        proof (cases "newPlanWithExecutor ?e (Some (pwe_motionplan ?l)) (g_replanCount g + 1) pid")
          case (Inl err')
          have "loop_select s h sc pid now = goroutine_return s h ?g'
            (updateStateStatusUpdate s (status_msg g \<lparr>State = PlanStateFailed, Timestamp = now, Reason = Some (Error err')\<rparr>))"
            using CaseResChan assms Some r True Inl
            by (simp add: loop_select_def Let_def notifyStatePlanFailed_def status_msg_def)
          with ret[of ?g'] show ?thesis by simp
        next
          case (Inr newPWE)
          let ?st = "\<lparr>State = PlanStateFailed, Timestamp = now, Reason = Some ?reason\<rparr>"
          show ?thesis
          proof (cases "updateStateStatusUpdate s (status_msg g ?st)")
            case Panic
            have "loop_select s h sc pid now = goroutine_return s h ?g' Panic"
              using CaseResChan assms Some r True Inr Panic
              by (simp add: loop_select_def Let_def notifyStatePlanFailed_def status_msg_def)
            then show ?thesis
              apply (intro disjI2)
              apply (rule exI[of _ "log_error s LogGoroutinePanic"])
              apply (rule exI[of _ "g\<lparr>g_pc := Returned\<rparr>"])
              using assms by (simp add: goroutine_return_effect)
          next
            case (Return s1)
            have "loop_select s h sc pid now
                    = s1\<lparr>goroutines := (goroutines s1)[h := ?g'\<lparr>g_pc := AtNotifyNewPlan newPWE\<rparr>]\<rparr>"
              using CaseResChan assms Some r True Inr Return
              by (simp add: loop_select_def Let_def notifyStatePlanFailed_def status_msg_def)
            moreover have "plan_of (g_e g) (pwe_plan newPWE)"
              using Inr newPlanWithExecutor_plan by blast
            ultimately show ?thesis
              apply (intro disjI2)
              apply (rule exI[of _ s1])
              apply (rule exI[of _ "?g'\<lparr>g_pc := AtNotifyNewPlan newPWE\<rparr>"])
              using Return by auto
          qed
        qed
      qed
    qed
  qed
qed

subsection \<open>Evaluating the model\<close>

lemmas start_defs =
  StartExecution_def ValidateNoActiveExecutionID_def activeExecution_def lastExecution_def
  start_def newPlanWithExecutor_def toGeoPosePlanSteps_def notifyStateNewExecution_def
  updateStateNewExecution_def toStateExecution_def updateStateNewPlan_def Let_def
  componentStateByComponent_at_def lastExecutionID_def executionsByID_at_def

lemmas double_defs =
  myBase_def emptyPlanResp_def executionWaitingForCtxCancelledPlanConstructor_def
  replanPlanConstructor_def failedPlanningPlanConstructor_def new_goroutine_def
  in_progress_plan_def

lemma StartExecution_NewState:
  "StartExecution (Some NewState) myBase () executionWaitingForCtxCancelledPlanConstructor 1 2 10
     = Return ((1, None), Some state_active)"
  by (simp add: start_defs double_defs NewState_def state_active_def)

subsection \<open>StartExecution while an execution is active\<close>

text \<open>
  C1. In a state where the newest execution of a component has a newest plan whose newest
  status is not terminal, \<open>StartExecution\<close> for that component returns \<open>uuid.Nil\<close> and the
  error "there is already an active executionID" carrying the identifier of that execution,
  and the state after the call is the state before it.
\<close>

theorem StartExecution_already_active:
  assumes "componentStateByComponent s name = Some cs"
    and "executionIDHistory cs = i # older_ids"
    and "executionsByID cs i = Some es"
    and "se_history es = pws # older"
    and "StatusHistory pws = st # sts"
    and "\<not> TerminalStateSet (State st)"
  shows "StartExecution (Some s) name req ctor newID newPlanID now
           = Return ((uuid_Nil, Some (ErrAlreadyActive (se_id es))), Some s)"
  using assms
  by (simp add: StartExecution_def ValidateNoActiveExecutionID_def activeExecution_def
      lastExecution_def lastExecutionID_def executionsByID_at_def)

theorem StartExecution_already_active_witness:
  "StartExecution (Some state_active) myBase () executionWaitingForCtxCancelledPlanConstructor 3 4 20
     = Return ((uuid_Nil, Some (ErrAlreadyActive 1)), Some state_active)"
  using StartExecution_already_active [of state_active myBase
      "\<lparr>executionIDHistory = [1],
        executionsByID = [1 \<mapsto> \<lparr>se_id = 1, se_componentName = myBase, se_goroutine = Some 0,
                       se_history = [in_progress_plan 2 1 myBase 10]\<rparr>]\<rparr>"
      1 "[]"
      "\<lparr>se_id = 1, se_componentName = myBase, se_goroutine = Some 0,
        se_history = [in_progress_plan 2 1 myBase 10]\<rparr>"
      "in_progress_plan 2 1 myBase 10" "[]"
      "\<lparr>State = PlanStateInProgress, Timestamp = 10, Reason = None\<rparr>" "[]"
      "()" executionWaitingForCtxCancelledPlanConstructor 3 4 20]
  by (simp add: state_active_def in_progress_plan_def)

subsection \<open>StartExecution when the first plan fails\<close>

text \<open>
  C3. When \<open>StartExecution\<close> gets as far as planning (no execution of the component is
  active) and the \<open>Plan\<close> call of the planner the factory built returns an error,
  \<open>StartExecution\<close> returns \<open>uuid.Nil\<close> with exactly that error, and the state after the
  call is the state before it: no execution is recorded, and \<open>PlanHistory\<close> and
  \<open>ListPlanStatuses\<close> answer as before.
\<close>

theorem StartExecution_plan_error:
  assumes "ValidateNoActiveExecutionID s name = Return None"
    and "ctor req None 0 = Inr pe"
    and "pe_Plan pe = Inl err"
  shows "\<exists>s'. StartExecution (Some s) name req ctor newID newPlanID now
                 = Return ((uuid_Nil, Some err), Some s')
              \<and> s' = s
              \<and> PlanHistory s' = PlanHistory s \<and> ListPlanStatuses s' = ListPlanStatuses s"
  using assms
  by (simp add: StartExecution_def start_def newPlanWithExecutor_def)

theorem StartExecution_plan_error_witness:
  "ValidateNoActiveExecutionID (NewState :: unit State) myBase = Return None
   \<and> StartExecution (Some NewState) myBase () failedPlanningPlanConstructor 1 2 10
       = Return ((uuid_Nil, Some (ErrExternal ''planning failed'')), Some NewState)"
  using StartExecution_plan_error [of "NewState :: unit State" myBase failedPlanningPlanConstructor
      "()" "\<lparr>pe_Plan = Inl (ErrExternal ''planning failed''),
             pe_Execute = (\<lambda>wp. Some (\<lparr>Replan = True, ReplanReason = ''drift''\<rparr>, None))\<rparr>"
      "ErrExternal ''planning failed''" 1 2 10]
  by (simp add: ValidateNoActiveExecutionID_def activeExecution_def NewState_def
      failedPlanningPlanConstructor_def)


subsection \<open>The reason recorded when an execution replans\<close>

lemmas loop_defs =
  loop_select_def loop_notifyNewPlan_def notifyStatePlanFailed_def notifyStatePlanSucceeded_def
  notifyStatePlanStopped_def notifyStateNewPlan_def updateStateStatusUpdate_def
  goroutine_return_def select_ready_def log_error_def

text \<open>
  C4. The claim: when \<open>Execute\<close> returns \<open>Replan = true\<close> with a nil error, the previous
  plan's \<open>Failed\<close> status records the replan reason \<open>Execute\<close> returned. The code at such
  a result: \<open>state_replan\<close> is a new state after \<open>StartExecution\<close> with a factory whose
  \<open>Execute\<close> returns \<open>Replan = true, ReplanReason = "drift"\<close> and no error; after the
  goroutine's replanning pass the history holds the new plan and the old one, failed with
  the reason "replan triggered without providing a reason". \<open>ReplanReason\<close> is never read.
\<close>

theorem replan_reason_not_recorded:
  "select_ready state_replan 0 CaseResChan
   \<and> pe_Execute (pwe_planExecutor (g_lastPWE (goroutines state_replan ! 0))) []
       = Some (\<lparr>Replan = True, ReplanReason = ''drift''\<rparr>, None)
   \<and> PlanHistory (loop_notifyNewPlan (loop_select state_replan 0 CaseResChan 3 20) 0 21)
        \<lparr>phr_ComponentName = myBase, phr_ExecutionID = uuid_Nil, phr_LastPlanOnly = False\<rparr>
       = Return (Inr [in_progress_plan 3 1 myBase 21, failed_without_reason])"
  by (simp add: state_replan_def state_after_def start_defs double_defs NewState_def loop_defs
      PlanHistory_def copy_history_def failed_without_reason_def uuid_Nil_def)

subsection \<open>Status updates the store does not accept\<close>

text \<open>
  A status update whose state is not terminal, whose component is unknown, or whose plan is
  not the newest plan of its execution is logged and leaves the map as it is.
\<close>

lemma log_error_keeps_map:
  "componentStateByComponent (log_error s l) = componentStateByComponent s"
  "logger (log_error s l) = logger s @ [l]"
  by (simp_all add: log_error_def)

lemma updateStateStatusUpdate_not_terminal:
  assumes "\<not> TerminalStateSet (State (sum_planStatus update))"
  shows "updateStateStatusUpdate s update
           = Return (log_error s (LogUnexpectedPlanState (State (sum_planStatus update))))"
  using assms by (cases "State (sum_planStatus update)") (simp_all add: updateStateStatusUpdate_def)

lemma updateStateStatusUpdate_unknown_component:
  assumes "TerminalStateSet (State (sum_planStatus update))"
    and "componentStateByComponent s (sum_componentName update) = None"
  shows "updateStateStatusUpdate s update = Return (log_error s LogComponentDoesntExist)"
  using assms by (cases "State (sum_planStatus update)") (simp_all add: updateStateStatusUpdate_def)

lemma updateStateStatusUpdate_not_last_plan:
  assumes "TerminalStateSet (State (sum_planStatus update))"
    and "componentStateByComponent s (sum_componentName update) = Some cs"
    and "executionsByID cs (sum_executionID update) = Some e"
    and "se_history e = pws # older"
    and "ID (Plan pws) \<noteq> sum_planID update"
  shows "updateStateStatusUpdate s update
           = Return (log_error s (LogNotLastPlan (sum_planID update) (ID (Plan pws))))"
  using assms
  by (cases "State (sum_planStatus update)")
     (simp_all add: updateStateStatusUpdate_def executionsByID_at_def)

text \<open>
  C5. The claim: every invalid status update, one for an unknown execution among them, is
  logged and dropped without a panic. The code at a status update for a known component and
  an execution that component does not have: it reads the zero \<open>stateExecution\<close> from the
  map and indexes its empty history, which panics. (The component is checked with
  \<open>exists\<close>; the execution is not.)
\<close>

theorem updateStateStatusUpdate_unknown_execution_panics:
  "componentStateByComponent state_active myBase \<noteq> None
   \<and> lookup state_active myBase 99 = None
   \<and> updateStateStatusUpdate state_active
        \<lparr>sum_componentName = myBase, sum_executionID = 99, sum_planID = 2,
         sum_planStatus = \<lparr>State = PlanStateSucceeded, Timestamp = 20, Reason = None\<rparr>\<rparr>
       = Panic"
  by (simp add: state_active_def updateStateStatusUpdate_def executionsByID_at_def
      zero_stateExecution_def lookup_def)

end
